theory Spec2Isabelle
  imports Main
begin

section \<open>The user-management addon (src/addons/user-management.ts)\<close>

text \<open>
  The addon merges the deployer's options over a table of defaults, synthesizes a
  session resource whose attribute names come from the options, composes a user
  processor and a session processor, and registers all of them on the host
  application.

  Everything that is asynchronous in the source is modelled as a computation over an
  explicit world: it returns either the value the promise resolves to or the error it
  rejects with, together with the new world.  The world carries the console (the
  warnings written with \<open>console.warn\<close>) and a host component for whatever state the
  deployer's own callbacks touch.
\<close>

subsection \<open>Values, errors and effects\<close>

datatype error =
    TypeError         \<comment> \<open>reading a property of, or calling, \<open>undefined\<close>\<close>
  | Rejected string   \<comment> \<open>an error thrown by a callback of the deployer\<close>

record 'h world =
  console :: "string list"
  host :: 'h

type_synonym ('h, 'x) async = "'h world \<Rightarrow> (error + 'x) \<times> 'h world"

definition warn :: "string \<Rightarrow> 'h world \<Rightarrow> 'h world" where
  "warn msg w = w\<lparr>console := console w @ [msg]\<rparr>"

text \<open>
  A property of an object literal is absent, present with the value \<open>undefined\<close>, or
  present with a proper value.  Reading a property gives \<open>undefined\<close> (\<open>None\<close>) in the
  first two cases.
\<close>

datatype 'x property = Missing | Undef | Val 'x

fun read_property :: "'x property \<Rightarrow> 'x option" where
  "read_property Missing = None"
| "read_property Undef = None"
| "read_property (Val x) = Some x"

text \<open>
  The types \<open>Operation\<close> and \<open>ResourceAttributes\<close> are declared by the host framework;
  the addon reads only \<open>op.data.attributes.password\<close>.  An attribute set maps a name to
  a value, which may be \<open>undefined\<close>.
\<close>

type_synonym 'v ResourceAttributes = "string \<rightharpoonup> 'v option"

record 'v ResourceData =
  attributes :: "'v ResourceAttributes"

record 'v Operation =
  op_name :: string
  op_data :: "'v ResourceData"

definition read_attribute :: "'v ResourceAttributes \<Rightarrow> string \<Rightarrow> 'v option" where
  "read_attribute obj k = (case obj k of None \<Rightarrow> None | Some v \<Rightarrow> v)"

subsection \<open>Processor classes and the options\<close>

text \<open>
  A processor class of the host is known to the addon by its identity (the source
  compares with \<open>===\<close>) and by what its prototype holds under \<open>generateId\<close> and
  \<open>encryptPassword\<close>.  Methods and bound callbacks take the processor instance
  (\<open>this\<close>) as their first argument.
\<close>

type_synonym ('v, 'h, 'p) generateId_fn = "'p \<Rightarrow> ('h, string option) async"

type_synonym ('v, 'h, 'p) encryptPassword_fn =
  "'p \<Rightarrow> 'v Operation \<Rightarrow> ('h, 'v ResourceAttributes) async"

type_synonym ('v, 'h) login_fn =
  "'v Operation \<Rightarrow> 'v ResourceAttributes \<Rightarrow> ('h, bool) async"

type_synonym ('h, 'a, 'u) provider_fn = "'a \<Rightarrow> 'u \<Rightarrow> ('h, string list) async"

record ('v, 'h, 'p) ProcessorClass =
  class_id :: nat
  proto_generateId :: "('v, 'h, 'p) generateId_fn option"
  proto_encryptPassword :: "('v, 'h, 'p) encryptPassword_fn option"

record ('v, 'h, 'p, 'a, 'u, 'r) UserManagementAddonOptions =
  userResource :: "'r property"
  userProcessor :: "('v, 'h, 'p) ProcessorClass property"
  userEncryptPasswordCallback :: "('v, 'h, 'p) encryptPassword_fn property"
  userLoginCallback :: "('v, 'h) login_fn property"
  userGenerateIdCallback :: "('v, 'h, 'p) generateId_fn property"
  userRolesProvider :: "('h, 'a, 'u) provider_fn property"
  userPermissionsProvider :: "('h, 'a, 'u) provider_fn property"
  usernameRequestParameter :: "string property"
  passwordRequestParameter :: "string property"

subsection \<open>The defaults\<close>

definition login_warning :: string where
  "login_warning =
     ''WARNING: You're using the default login callback with UserManagementAddon.'' @
     ''ANY LOGIN REQUEST WILL PASS. Implement this callback in your addon configuration.''"

definition encryptPassword_warning :: string where
  "encryptPassword_warning =
     ''WARNING: You're using the default encryptPassword callback with UserManagementAddon.'' @
     ''Your password is NOT being encrypted. Implement this callback in your addon configuration.''"

definition default_userRolesProvider :: "('h, 'a, 'u) provider_fn" where
  "default_userRolesProvider = (\<lambda>this user w. (Inr [], w))"

definition default_userPermissionsProvider :: "('h, 'a, 'u) provider_fn" where
  "default_userPermissionsProvider = (\<lambda>this user w. (Inr [], w))"

definition default_userLoginCallback :: "('v, 'h) login_fn" where
  "default_userLoginCallback = (\<lambda>op userDataSource w. (Inr True, warn login_warning w))"

definition default_userEncryptPasswordCallback :: "('v, 'h, 'p) encryptPassword_fn" where
  "default_userEncryptPasswordCallback =
     (\<lambda>this op w.
        (Inr [''password'' \<mapsto> read_attribute (attributes (op_data op)) ''password''],
         warn encryptPassword_warning w))"

text \<open>
  The built-in processor class \<open>JsonApiUserProcessor\<close> and the built-in resource
  \<open>User\<close> are imported from the host framework: they are parameters here.
\<close>

definition defaults ::
  "('v, 'h, 'p) ProcessorClass \<Rightarrow> 'r \<Rightarrow> ('v, 'h, 'p, 'a, 'u, 'r) UserManagementAddonOptions"
where
  "defaults JsonApiUserProcessor User =
     \<lparr> userResource = Val User,
       userProcessor = Val JsonApiUserProcessor,
       userEncryptPasswordCallback = Val default_userEncryptPasswordCallback,
       userLoginCallback = Val default_userLoginCallback,
       userGenerateIdCallback = Missing,
       userRolesProvider = Val default_userRolesProvider,
       userPermissionsProvider = Val default_userPermissionsProvider,
       usernameRequestParameter = Val ''username'',
       passwordRequestParameter = Val ''password'' \<rparr>"

subsection \<open>The constructor: \<open>{ ...defaults, ...options }\<close>\<close>

text \<open>
  Object spread copies the own properties of \<open>defaults\<close> and then those of the
  supplied options: a key of the options replaces the default, whatever its value is.
  Spreading \<open>undefined\<close> (no options given) copies nothing.
\<close>

definition spread_prop :: "'x property \<Rightarrow> 'x property \<Rightarrow> 'x property" where
  "spread_prop d s = (case s of Missing \<Rightarrow> d | Undef \<Rightarrow> Undef | Val x \<Rightarrow> Val x)"

definition spread ::
  "('v, 'h, 'p, 'a, 'u, 'r) UserManagementAddonOptions \<Rightarrow>
   ('v, 'h, 'p, 'a, 'u, 'r) UserManagementAddonOptions option \<Rightarrow>
   ('v, 'h, 'p, 'a, 'u, 'r) UserManagementAddonOptions"
where
  "spread d options =
     (case options of
        None \<Rightarrow> d
      | Some s \<Rightarrow>
          \<lparr> userResource = spread_prop (userResource d) (userResource s),
            userProcessor = spread_prop (userProcessor d) (userProcessor s),
            userEncryptPasswordCallback =
              spread_prop (userEncryptPasswordCallback d) (userEncryptPasswordCallback s),
            userLoginCallback = spread_prop (userLoginCallback d) (userLoginCallback s),
            userGenerateIdCallback =
              spread_prop (userGenerateIdCallback d) (userGenerateIdCallback s),
            userRolesProvider = spread_prop (userRolesProvider d) (userRolesProvider s),
            userPermissionsProvider =
              spread_prop (userPermissionsProvider d) (userPermissionsProvider s),
            usernameRequestParameter =
              spread_prop (usernameRequestParameter d) (usernameRequestParameter s),
            passwordRequestParameter =
              spread_prop (passwordRequestParameter d) (passwordRequestParameter s) \<rparr>)"

text \<open>
  The addon instance keeps the merged options.  Its other field, \<open>app\<close>, is a reference
  to the host application, whose state \<open>install\<close> receives and returns below.
\<close>

record ('v, 'h, 'p, 'a, 'u, 'r) UserManagementAddon =
  options :: "('v, 'h, 'p, 'a, 'u, 'r) UserManagementAddonOptions"

definition new_UserManagementAddon ::
  "('v, 'h, 'p) ProcessorClass \<Rightarrow> 'r \<Rightarrow>
   ('v, 'h, 'p, 'a, 'u, 'r) UserManagementAddonOptions option \<Rightarrow>
   ('v, 'h, 'p, 'a, 'u, 'r) UserManagementAddon"
where
  "new_UserManagementAddon JsonApiUserProcessor User opts =
     \<lparr> options = spread (defaults JsonApiUserProcessor User) opts \<rparr>"

subsection \<open>The session resource\<close>

datatype AttributeType = StringType | PasswordType

record 'r Relationship =
  target_type :: "unit \<Rightarrow> 'r option"
  belongsTo :: bool

record 'r SessionResource =
  type_name :: string
  schema_attributes :: "string \<rightharpoonup> AttributeType"
  schema_relationships :: "string \<rightharpoonup> 'r Relationship"

text \<open>A computed key \<open>[e]\<close> of an object literal is the string of its value.\<close>

fun property_key :: "string option \<Rightarrow> string" where
  "property_key None = ''undefined''"
| "property_key (Some s) = s"

definition createSessionResource ::
  "('v, 'h, 'p, 'a, 'u, 'r) UserManagementAddon \<Rightarrow> 'r SessionResource"
where
  "createSessionResource this =
     (let opts = options this in
      \<lparr> type_name = ''session'',
        schema_attributes =
          [''token'' \<mapsto> StringType,
           property_key (read_property (usernameRequestParameter opts)) \<mapsto> StringType,
           property_key (read_property (passwordRequestParameter opts)) \<mapsto> PasswordType],
        schema_relationships =
          [''user'' \<mapsto> \<lparr> target_type = (\<lambda>_. read_property (userResource opts)), belongsTo = True \<rparr>] \<rparr>)"

subsection \<open>The composed processors\<close>

record ('v, 'h, 'p, 'r) UserProcessor =
  superclass :: "('v, 'h, 'p) ProcessorClass"
  user_resourceClass :: "'r option"
  generateId :: "('v, 'h, 'p) generateId_fn"
  encryptPassword :: "('v, 'h, 'p) encryptPassword_fn"

record ('v, 'h, 'r) SessionProcessor =
  session_resourceClass :: "'r SessionResource"
  login :: "('v, 'h) login_fn"

text \<open>
  \<open>f.bind(this)(args)\<close>: when \<open>f\<close> is \<open>undefined\<close>, reading \<open>bind\<close> throws a TypeError,
  which the enclosing async method turns into a rejection.
\<close>

definition bind_call0 :: "('p \<Rightarrow> ('h, 'x) async) option \<Rightarrow> 'p \<Rightarrow> ('h, 'x) async" where
  "bind_call0 f this w = (case f of None \<Rightarrow> (Inl TypeError, w) | Some g \<Rightarrow> g this w)"

definition bind_call1 ::
  "('p \<Rightarrow> 'b \<Rightarrow> ('h, 'x) async) option \<Rightarrow> 'p \<Rightarrow> 'b \<Rightarrow> ('h, 'x) async"
where
  "bind_call1 f this x w = (case f of None \<Rightarrow> (Inl TypeError, w) | Some g \<Rightarrow> g this x w)"

text \<open>
  \<open>userProcessor === JsonApiUserProcessor\<close> compares the identity of two classes;
  \<open>undefined\<close> is no class.
\<close>

definition same_class ::
  "('v, 'h, 'p) ProcessorClass option \<Rightarrow> ('v, 'h, 'p) ProcessorClass \<Rightarrow> bool"
where
  "same_class c d = (case c of None \<Rightarrow> False | Some c' \<Rightarrow> class_id c' = class_id d)"

text \<open>
  The two local callbacks \<open>createUserProcessor\<close> starts from.  The second one is
  overwritten on both branches before it is used.  The function first selects the two
  callbacks (on the \<open>else\<close> branch by reading \<open>userProcessor.prototype\<close>, which throws
  when \<open>userProcessor\<close> is \<open>undefined\<close>) and then declares the class that extends
  \<open>options.userProcessor\<close>.
\<close>

definition initial_generateIdCallback :: "('v, 'h, 'p) generateId_fn" where
  "initial_generateIdCallback = (\<lambda>this w. (Inr None, w))"

definition initial_encryptPasswordCallback :: "('v, 'h, 'p) encryptPassword_fn" where
  "initial_encryptPasswordCallback = (\<lambda>this op w. (Inr Map.empty, w))"

definition createUserProcessor ::
  "('v, 'h, 'p) ProcessorClass \<Rightarrow> ('v, 'h, 'p, 'a, 'u, 'r) UserManagementAddon \<Rightarrow>
   error + ('v, 'h, 'p, 'r) UserProcessor"
where
  "createUserProcessor JsonApiUserProcessor this =
     (let userProcessor = read_property (userProcessor (options this));
          userEncryptPasswordCallback = read_property (userEncryptPasswordCallback (options this));
          userGenerateIdCallback = read_property (userGenerateIdCallback (options this));
          generateIdCallback = Some initial_generateIdCallback;
          encryptPasswordCallback =
            Some (initial_encryptPasswordCallback :: ('v, 'h, 'p) encryptPassword_fn);
          callbacks =
            (if same_class userProcessor JsonApiUserProcessor then
               Inr (case userGenerateIdCallback of
                      Some f \<Rightarrow> Some f
                    | None \<Rightarrow> generateIdCallback,
                    userEncryptPasswordCallback)
             else
               (case userProcessor of
                  None \<Rightarrow> Inl TypeError
                | Some c \<Rightarrow> Inr (proto_generateId c, proto_encryptPassword c)))
      in
      case callbacks of
        Inl e \<Rightarrow> Inl e
      | Inr (generateIdCallback, encryptPasswordCallback) \<Rightarrow>
          (case userProcessor of
             None \<Rightarrow> Inl TypeError
           | Some c \<Rightarrow>
               Inr \<lparr> superclass = c,
                     user_resourceClass = read_property (userResource (options this)),
                     generateId = bind_call0 generateIdCallback,
                     encryptPassword = bind_call1 encryptPasswordCallback \<rparr>))"

definition createSessionProcessor ::
  "('v, 'h, 'p, 'a, 'u, 'r) UserManagementAddon \<Rightarrow> 'r SessionResource \<Rightarrow>
   ('v, 'h, 'r) SessionProcessor"
where
  "createSessionProcessor this sessionResourceType =
     \<lparr> session_resourceClass = sessionResourceType,
       login = (\<lambda>op userDataSource w.
         case read_property (userLoginCallback (options this)) of
           None \<Rightarrow> (Inl TypeError, w)
         | Some f \<Rightarrow> f op userDataSource w) \<rparr>"

subsection \<open>Installation\<close>

datatype 'r ResourceType =
    Configured "'r option"               \<comment> \<open>the value of \<open>options.userResource\<close>\<close>
  | Synthesized "'r SessionResource"

datatype ('v, 'h, 'p, 'r) Processor =
    UserP "('v, 'h, 'p, 'r) UserProcessor"
  | SessionP "('v, 'h, 'r) SessionProcessor"

record ('v, 'h, 'p, 'a, 'u, 'r) Application =
  services :: "string \<rightharpoonup> ('h, 'a, 'u) provider_fn option"
  types :: "'r ResourceType list"
  processors :: "('v, 'h, 'p, 'r) Processor list"

text \<open>
  \<open>install\<close> changes the application in place and has no rollback: when composing the
  user processor throws, the services and the types are already registered and
  \<open>processors.push\<close> is never reached.
\<close>

definition install ::
  "('v, 'h, 'p) ProcessorClass \<Rightarrow> ('v, 'h, 'p, 'a, 'u, 'r) UserManagementAddon \<Rightarrow>
   ('v, 'h, 'p, 'a, 'u, 'r) Application \<Rightarrow>
   (error + unit) \<times> ('v, 'h, 'p, 'a, 'u, 'r) Application"
where
  "install JsonApiUserProcessor this app =
     (let sessionResourceType = createSessionResource this;
          app1 = app\<lparr>services := (services app)(''roles'' \<mapsto> read_property (userRolesProvider (options this)))\<rparr>;
          app2 = app1\<lparr>services :=
                   (services app1)(''permissions'' \<mapsto> read_property (userPermissionsProvider (options this)))\<rparr>;
          app3 = app2\<lparr>types := types app2 @
                   [Configured (read_property (userResource (options this))), Synthesized sessionResourceType]\<rparr>
      in
      case createUserProcessor JsonApiUserProcessor this of
        Inl e \<Rightarrow> (Inl e, app3)
      | Inr userProcessorType \<Rightarrow>
          (Inr (),
           app3\<lparr>processors := processors app3 @
                  [UserP userProcessorType,
                   SessionP (createSessionProcessor this sessionResourceType)]\<rparr>))"


subsection \<open>Vocabulary of the properties\<close>

text \<open>
  What the deployer supplied for an option: nothing at all when the constructor got no
  options object.
\<close>

definition supplied ::
  "(('v, 'h, 'p, 'a, 'u, 'r) UserManagementAddonOptions \<Rightarrow> 'x property) \<Rightarrow>
   ('v, 'h, 'p, 'a, 'u, 'r) UserManagementAddonOptions option \<Rightarrow> 'x property"
where
  "supplied field opts = (case opts of None \<Rightarrow> Missing | Some s \<Rightarrow> field s)"

text \<open>
  A merged field overlays a default: it is what was supplied when the key was supplied,
  the default when the key was omitted, and it is left unset (it reads \<open>undefined\<close>)
  exactly when the key was supplied as \<open>undefined\<close>.
\<close>

definition overlaid :: "'x \<Rightarrow> 'x property \<Rightarrow> 'x property \<Rightarrow> bool" where
  "overlaid dflt given merged \<longleftrightarrow>
     (given \<noteq> Missing \<longrightarrow> merged = given) \<and>
     (given = Missing \<longrightarrow> merged = Val dflt) \<and>
     (read_property merged = None \<longleftrightarrow> given = Undef)"

text \<open>The option \<open>userProcessor\<close> is left at the built-in class.\<close>

definition left_at_default ::
  "('v, 'h, 'p) ProcessorClass \<Rightarrow> ('v, 'h, 'p) ProcessorClass property \<Rightarrow> bool"
where
  "left_at_default JsonApiUserProcessor p =
     (case p of
        Missing \<Rightarrow> True
      | Undef \<Rightarrow> False
      | Val c \<Rightarrow> class_id c = class_id JsonApiUserProcessor)"

text \<open>
  Invoking a method of the composed user processor.  When the composition itself threw
  there is no processor to invoke, and its error stands.
\<close>

definition invoke_generateId ::
  "error + ('v, 'h, 'p, 'r) UserProcessor \<Rightarrow> 'p \<Rightarrow> ('h, string option) async"
where
  "invoke_generateId composed this w =
     (case composed of Inl e \<Rightarrow> (Inl e, w) | Inr p \<Rightarrow> generateId p this w)"

definition invoke_encryptPassword ::
  "error + ('v, 'h, 'p, 'r) UserProcessor \<Rightarrow> 'p \<Rightarrow> 'v Operation \<Rightarrow>
   ('h, 'v ResourceAttributes) async"
where
  "invoke_encryptPassword composed this op w =
     (case composed of Inl e \<Rightarrow> (Inl e, w) | Inr p \<Rightarrow> encryptPassword p this op w)"

text \<open>
  A login callback that keeps a journal of its calls: it runs \<open>f\<close> on the deployer's
  part of the host state and appends the arguments it was called with.
\<close>

definition recording ::
  "('v, 'h) login_fn \<Rightarrow> ('v, 'h \<times> ('v Operation \<times> 'v ResourceAttributes) list) login_fn"
where
  "recording f op userDataSource w =
     (case f op userDataSource \<lparr>console = console w, host = fst (host w)\<rparr> of
        (r, w') \<Rightarrow>
          (r, \<lparr>console = console w',
               host = (host w', snd (host w) @ [(op, userDataSource)])\<rparr>))"

subsection \<open>Concrete inputs\<close>

definition no_overrides :: "('v, 'h, 'p, 'a, 'u, 'r) UserManagementAddonOptions" where
  "no_overrides =
     \<lparr> userResource = Missing,
       userProcessor = Missing,
       userEncryptPasswordCallback = Missing,
       userLoginCallback = Missing,
       userGenerateIdCallback = Missing,
       userRolesProvider = Missing,
       userPermissionsProvider = Missing,
       usernameRequestParameter = Missing,
       passwordRequestParameter = Missing \<rparr>"

definition builtin_processor :: "('v, 'h, 'p) ProcessorClass" where
  "builtin_processor =
     \<lparr> class_id = 0,
       proto_generateId = Some initial_generateIdCallback,
       proto_encryptPassword = Some initial_encryptPasswordCallback \<rparr>"

definition hashing_processor :: "(string, 'h, 'p) ProcessorClass" where
  "hashing_processor =
     \<lparr> class_id = 1,
       proto_generateId = Some (\<lambda>this w. (Inr (Some ''id-1''), w)),
       proto_encryptPassword =
         Some (\<lambda>this op w. (Inr [''password'' \<mapsto> Some ''hashed''], w)) \<rparr>"

definition bare_processor :: "('v, 'h, 'p) ProcessorClass" where
  "bare_processor = \<lparr> class_id = 2, proto_generateId = None, proto_encryptPassword = None \<rparr>"

definition signup :: "string Operation" where
  "signup =
     \<lparr> op_name = ''add'',
       op_data = \<lparr> attributes = [''username'' \<mapsto> Some ''ann'', ''password'' \<mapsto> Some ''secret''] \<rparr> \<rparr>"

definition quiet :: "unit world" where
  "quiet = \<lparr> console = [], host = () \<rparr>"

definition fresh_app :: "('v, 'h, 'p, 'a, 'u, 'r) Application" where
  "fresh_app = \<lparr> services = Map.empty, types = [], processors = [] \<rparr>"

definition deny_all :: "(string, unit) login_fn" where
  "deny_all = (\<lambda>op userDataSource w. (Inr False, w))"

type_synonym example_options =
  "(string, unit, unit, unit, unit, string) UserManagementAddonOptions"

definition email_options :: example_options where
  "email_options = no_overrides\<lparr>usernameRequestParameter := Val ''email''\<rparr>"

definition hashing_options :: example_options where
  "hashing_options =
     no_overrides\<lparr>userProcessor := Val hashing_processor,
                   userEncryptPasswordCallback := Val initial_encryptPasswordCallback\<rparr>"

definition bare_options :: example_options where
  "bare_options = no_overrides\<lparr>userProcessor := Val bare_processor\<rparr>"

definition undefined_processor_options :: example_options where
  "undefined_processor_options = no_overrides\<lparr>userProcessor := Undef\<rparr>"

definition undefined_login_options :: example_options where
  "undefined_login_options = no_overrides\<lparr>userLoginCallback := Undef\<rparr>"

definition undefined_username_options :: example_options where
  "undefined_username_options = no_overrides\<lparr>usernameRequestParameter := Undef\<rparr>"

definition email_undefined_processor_options :: example_options where
  "email_undefined_processor_options =
     no_overrides\<lparr>userProcessor := Undef, usernameRequestParameter := Val ''email''\<rparr>"

definition colliding_options :: example_options where
  "colliding_options =
     no_overrides\<lparr>usernameRequestParameter := Val ''secret'',
                   passwordRequestParameter := Val ''secret''\<rparr>"

definition default_addon :: "(string, unit, unit, unit, unit, string) UserManagementAddon" where
  "default_addon = new_UserManagementAddon builtin_processor ''User'' None"

section \<open>Properties\<close>

subsection \<open>Auxiliary facts\<close>

lemma overlaid_spread_prop: "overlaid d s (spread_prop (Val d) s)"
  by (cases s) (simp_all add: overlaid_def spread_prop_def)

lemma merged_field:
  "userResource (options (new_UserManagementAddon J U opts)) =
     spread_prop (Val U) (supplied userResource opts)"
  "userProcessor (options (new_UserManagementAddon J U opts)) =
     spread_prop (Val J) (supplied userProcessor opts)"
  "userEncryptPasswordCallback (options (new_UserManagementAddon J U opts)) =
     spread_prop (Val default_userEncryptPasswordCallback) (supplied userEncryptPasswordCallback opts)"
  "userLoginCallback (options (new_UserManagementAddon J U opts)) =
     spread_prop (Val default_userLoginCallback) (supplied userLoginCallback opts)"
  "userGenerateIdCallback (options (new_UserManagementAddon J U opts)) =
     supplied userGenerateIdCallback opts"
  "userRolesProvider (options (new_UserManagementAddon J U opts)) =
     spread_prop (Val default_userRolesProvider) (supplied userRolesProvider opts)"
  "userPermissionsProvider (options (new_UserManagementAddon J U opts)) =
     spread_prop (Val default_userPermissionsProvider) (supplied userPermissionsProvider opts)"
  "usernameRequestParameter (options (new_UserManagementAddon J U opts)) =
     spread_prop (Val ''username'') (supplied usernameRequestParameter opts)"
  "passwordRequestParameter (options (new_UserManagementAddon J U opts)) =
     spread_prop (Val ''password'') (supplied passwordRequestParameter opts)"
  by (cases opts;
      simp add: new_UserManagementAddon_def spread_def defaults_def supplied_def spread_prop_def
           split: property.splits)+

lemma createUserProcessor_eq:
  "createUserProcessor J this =
     (case read_property (userProcessor (options this)) of
        None \<Rightarrow> Inl TypeError
      | Some c \<Rightarrow>
          Inr \<lparr> superclass = c,
                user_resourceClass = read_property (userResource (options this)),
                generateId = bind_call0
                  (if class_id c = class_id J
                   then (case read_property (userGenerateIdCallback (options this)) of
                           Some f \<Rightarrow> Some f
                         | None \<Rightarrow> Some initial_generateIdCallback)
                   else proto_generateId c),
                encryptPassword = bind_call1
                  (if class_id c = class_id J
                   then read_property (userEncryptPasswordCallback (options this))
                   else proto_encryptPassword c) \<rparr>)"
  by (simp add: createUserProcessor_def Let_def same_class_def split: option.splits)

lemma createUserProcessor_succeeds:
  "read_property (userProcessor (options this)) = Some c \<Longrightarrow>
   \<exists>up. createUserProcessor J this = Inr up"
  by (simp add: createUserProcessor_eq)

lemma createUserProcessor_fails:
  "read_property (userProcessor (options this)) = None \<Longrightarrow>
   createUserProcessor J this = Inl TypeError"
  by (simp add: createUserProcessor_eq)

lemma install_result:
  "install J this app =
    (case createUserProcessor J this of
       Inl e \<Rightarrow>
         (Inl e,
          app\<lparr>services := (services app)
                  (''roles'' \<mapsto> read_property (userRolesProvider (options this)),
                   ''permissions'' \<mapsto> read_property (userPermissionsProvider (options this))),
               types := types app @
                  [Configured (read_property (userResource (options this))),
                   Synthesized (createSessionResource this)]\<rparr>)
     | Inr up \<Rightarrow>
         (Inr (),
          app\<lparr>services := (services app)
                  (''roles'' \<mapsto> read_property (userRolesProvider (options this)),
                   ''permissions'' \<mapsto> read_property (userPermissionsProvider (options this))),
               types := types app @
                  [Configured (read_property (userResource (options this))),
                   Synthesized (createSessionResource this)],
               processors := processors app @
                  [UserP up, SessionP (createSessionProcessor this (createSessionResource this))]\<rparr>))"
  by (simp add: install_def Let_def split: sum.splits)

lemma install_outcome:
  "fst (install J this app) =
     (case read_property (userProcessor (options this)) of None \<Rightarrow> Inl TypeError | Some c \<Rightarrow> Inr ())"
proof (cases "read_property (userProcessor (options this))")
  case None
  then show ?thesis by (simp add: install_result createUserProcessor_fails)
next
  case (Some c)
  then obtain up where "createUserProcessor J this = Inr up"
    using createUserProcessor_succeeds by blast
  with Some show ?thesis by (simp add: install_result)
qed

lemma card_dom_collision:
  "a = b \<or> a = c \<or> b = c \<Longrightarrow> card (dom [a \<mapsto> x, b \<mapsto> y, c \<mapsto> z]) < 3"
  by (auto simp: card_insert_if)

lemmas example_defs =
  no_overrides_def builtin_processor_def hashing_processor_def bare_processor_def signup_def
  quiet_def fresh_app_def deny_all_def email_options_def hashing_options_def bare_options_def
  undefined_processor_options_def colliding_options_def default_addon_def

subsection \<open>The default password callback\<close>

text \<open>
  Claim C1 as stated: with \<open>userProcessor\<close> at the built-in default and
  \<open>userEncryptPasswordCallback\<close> omitted, \<open>encryptPassword\<close> returns an empty attribute set.
  It does not: with no options at all, the processor composed for a sign-up operation
  whose password is \<open>secret\<close> does not resolve to the empty set.
\<close>

theorem default_encryptPassword_not_empty:
  "fst (invoke_encryptPassword (createUserProcessor builtin_processor default_addon) () signup quiet)
     \<noteq> Inr Map.empty"
  by (simp add: example_defs invoke_encryptPassword_def createUserProcessor_eq
        merged_field supplied_def spread_prop_def same_class_def bind_call1_def
        default_userEncryptPasswordCallback_def)

text \<open>
  Claim C1, amended: if \<open>userProcessor\<close> is left at the built-in default (omitted, or
  given as the built-in class) and \<open>userEncryptPasswordCallback\<close> is omitted, then the
  user processor is composed and, for every operation, its \<open>encryptPassword\<close> writes
  the warning of the default callback and returns the attribute set whose only key is
  \<open>password\<close>, holding the password attribute of the operation unchanged.
\<close>

theorem default_encryptPassword_returns_plaintext:
  assumes "left_at_default J (supplied userProcessor opts)"
      and "supplied userEncryptPasswordCallback opts = Missing"
  shows "\<exists>p. createUserProcessor J (new_UserManagementAddon J U opts) = Inr p \<and>
           (\<forall>this op w. encryptPassword p this op w =
              (Inr [''password'' \<mapsto> read_attribute (attributes (op_data op)) ''password''],
               warn encryptPassword_warning w))"
  using assms
  by (cases "supplied userProcessor opts")
     (simp_all add: left_at_default_def createUserProcessor_eq merged_field spread_prop_def
        bind_call1_def default_userEncryptPasswordCallback_def)

theorem default_encryptPassword_returns_plaintext_witness:
  "invoke_encryptPassword (createUserProcessor builtin_processor default_addon) () signup quiet =
     (Inr [''password'' \<mapsto> Some ''secret''], \<lparr>console = [encryptPassword_warning], host = ()\<rparr>)"
proof -
  have d: "left_at_default (builtin_processor :: (string, unit, unit) ProcessorClass)
             (supplied userProcessor (None :: example_options option))"
    by (simp add: left_at_default_def supplied_def)
  have m: "supplied userEncryptPasswordCallback (None :: example_options option) = Missing"
    by (simp add: supplied_def)
  from default_encryptPassword_returns_plaintext [OF d m, of "''User''"]
  show ?thesis
    by (auto simp add: default_addon_def invoke_encryptPassword_def signup_def quiet_def
          read_attribute_def warn_def)
qed


subsection \<open>A custom processor class\<close>

text \<open>
  Claim C2: if \<open>userProcessor\<close> is a custom class (not the built-in one) whose prototype
  implements \<open>generateId\<close> and \<open>encryptPassword\<close>, then the composed processor's two
  methods are exactly the custom class's own, applied to the composed processor's
  \<open>this\<close>, and whatever \<open>userGenerateIdCallback\<close> and \<open>userEncryptPasswordCallback\<close>
  the options carry makes no difference to the composed processor.
\<close>

theorem custom_processor_methods_borrowed:
  assumes "userProcessor s = Val c"
      and "class_id c \<noteq> class_id J"
      and "proto_generateId c = Some g"
      and "proto_encryptPassword c = Some e"
  shows "(\<exists>p. createUserProcessor J (new_UserManagementAddon J U (Some s)) = Inr p \<and>
            generateId p = g \<and> encryptPassword p = e)
       \<and> createUserProcessor J (new_UserManagementAddon J U
            (Some (s\<lparr>userGenerateIdCallback := x, userEncryptPasswordCallback := y\<rparr>))) =
         createUserProcessor J (new_UserManagementAddon J U (Some s))"
  using assms
  by (auto simp add: createUserProcessor_eq merged_field spread_prop_def supplied_def
        same_class_def bind_call0_def bind_call1_def fun_eq_iff)

theorem custom_processor_methods_borrowed_witness:
  "invoke_encryptPassword
     (createUserProcessor builtin_processor
        (new_UserManagementAddon builtin_processor ''User'' (Some hashing_options)))
     () signup quiet = (Inr [''password'' \<mapsto> Some ''hashed''], quiet)
   \<and> invoke_generateId
     (createUserProcessor builtin_processor
        (new_UserManagementAddon builtin_processor ''User'' (Some hashing_options)))
     () quiet = (Inr (Some ''id-1''), quiet)"
proof -
  have 1: "userProcessor hashing_options = Val hashing_processor"
    by (simp add: hashing_options_def no_overrides_def)
  have 2: "class_id (hashing_processor :: (string, unit, unit) ProcessorClass) \<noteq>
           class_id (builtin_processor :: (string, unit, unit) ProcessorClass)"
    by (simp add: hashing_processor_def builtin_processor_def)
  have 3: "proto_generateId (hashing_processor :: (string, unit, unit) ProcessorClass) =
           Some (\<lambda>this w. (Inr (Some ''id-1''), w))"
    by (simp add: hashing_processor_def)
  have 4: "proto_encryptPassword (hashing_processor :: (string, unit, unit) ProcessorClass) =
           Some (\<lambda>this op w. (Inr [''password'' \<mapsto> Some ''hashed''], w))"
    by (simp add: hashing_processor_def)
  from custom_processor_methods_borrowed [OF 1 2 3 4, THEN conjunct1, of "''User''"]
  show ?thesis
    by (auto simp add: invoke_encryptPassword_def invoke_generateId_def)
qed

subsection \<open>Login is a pass-through\<close>

text \<open>
  Claim C3 as stated: for every configuration, \<open>login(op, attrs)\<close> calls the configured
  login callback once and returns its result.  It fails for the options
  \<open>{ userLoginCallback: undefined }\<close>, which the optional field of the options type
  admits: the spread keeps the supplied \<open>undefined\<close> over the default, so \<open>login\<close> calls
  no callback and rejects with a TypeError.
\<close>

theorem login_undefined_callback_fails:
  "userLoginCallback (options (new_UserManagementAddon builtin_processor ''User''
      (Some undefined_login_options))) = Undef
   \<and> login (createSessionProcessor
            (new_UserManagementAddon builtin_processor ''User'' (Some undefined_login_options))
            (createSessionResource default_addon))
         signup [''username'' \<mapsto> Some ''ann''] quiet = (Inl TypeError, quiet)"
  by (simp add: createSessionProcessor_def merged_field supplied_def spread_prop_def
        undefined_login_options_def no_overrides_def)

text \<open>
  Claim C3, amended: for every configuration whose \<open>userLoginCallback\<close> is not explicitly
  \<open>undefined\<close>, the merged options hold a login callback (the supplied one, or the
  default), and \<open>login(op, attrs)\<close> of the composed session processor is that callback
  applied to the same \<open>op\<close> and \<open>attrs\<close>: its result and its effects are the callback's,
  unchanged.  With a callback that keeps a journal of its calls, one \<open>login\<close> appends
  exactly one entry to the journal, the pair \<open>(op, attrs)\<close>.
\<close>

theorem login_passes_through:
  assumes "supplied userLoginCallback opts \<noteq> Undef"
  shows "(\<exists>f. userLoginCallback (options (new_UserManagementAddon J U opts)) = Val f \<and>
            (\<forall>srt op attrs w.
               login (createSessionProcessor (new_UserManagementAddon J U opts) srt) op attrs w =
                 f op attrs w))
   \<and> login (createSessionProcessor (new_UserManagementAddon J' U'
              (Some (s\<lparr>userLoginCallback := Val (recording f')\<rparr>))) srt') op' attrs'
         \<lparr>console = out, host = (h, calls)\<rparr> =
       (fst (f' op' attrs' \<lparr>console = out, host = h\<rparr>),
        \<lparr>console = console (snd (f' op' attrs' \<lparr>console = out, host = h\<rparr>)),
         host = (host (snd (f' op' attrs' \<lparr>console = out, host = h\<rparr>)),
                 calls @ [(op', attrs')])\<rparr>)"
proof -
  have "\<exists>f. userLoginCallback (options (new_UserManagementAddon J U opts)) = Val f \<and>
            (\<forall>srt op attrs w.
               login (createSessionProcessor (new_UserManagementAddon J U opts) srt) op attrs w =
                 f op attrs w)"
    using assms
    by (cases "supplied userLoginCallback opts")
       (simp_all add: createSessionProcessor_def merged_field spread_prop_def)
  moreover have "login (createSessionProcessor (new_UserManagementAddon J' U'
              (Some (s\<lparr>userLoginCallback := Val (recording f')\<rparr>))) srt') op' attrs'
         \<lparr>console = out, host = (h, calls)\<rparr> =
       (fst (f' op' attrs' \<lparr>console = out, host = h\<rparr>),
        \<lparr>console = console (snd (f' op' attrs' \<lparr>console = out, host = h\<rparr>)),
         host = (host (snd (f' op' attrs' \<lparr>console = out, host = h\<rparr>)),
                 calls @ [(op', attrs')])\<rparr>)"
    by (simp add: createSessionProcessor_def merged_field supplied_def spread_prop_def
          recording_def split: prod.splits)
  ultimately show ?thesis by simp
qed

theorem login_passes_through_witness:
  "login (createSessionProcessor
            (new_UserManagementAddon builtin_processor ''User''
               (Some ((no_overrides :: example_options)\<lparr>userLoginCallback := Val deny_all\<rparr>)))
            (createSessionResource default_addon))
         signup [''username'' \<mapsto> Some ''ann''] quiet = (Inr False, quiet)
   \<and> login (createSessionProcessor
            (new_UserManagementAddon builtin_processor ''User''
               (Some ((no_overrides :: (string, unit \<times> (string Operation \<times> string ResourceAttributes) list,
                                         unit, unit, unit, string) UserManagementAddonOptions)
                        \<lparr>userLoginCallback := Val (recording deny_all)\<rparr>)))
            (createSessionResource default_addon))
         signup [''username'' \<mapsto> Some ''ann''] \<lparr>console = [], host = ((), [])\<rparr> =
       (Inr False, \<lparr>console = [], host = ((), [(signup, [''username'' \<mapsto> Some ''ann''])])\<rparr>)"
proof -
  have n: "supplied userLoginCallback
             (Some ((no_overrides :: example_options)\<lparr>userLoginCallback := Val deny_all\<rparr>)) \<noteq> Undef"
    by (simp add: supplied_def)
  have c: "userLoginCallback (options (new_UserManagementAddon builtin_processor ''User''
             (Some ((no_overrides :: example_options)\<lparr>userLoginCallback := Val deny_all\<rparr>)))) =
           Val deny_all"
    by (simp add: merged_field supplied_def spread_prop_def)
  have "login (createSessionProcessor
            (new_UserManagementAddon builtin_processor ''User''
               (Some ((no_overrides :: example_options)\<lparr>userLoginCallback := Val deny_all\<rparr>)))
            (createSessionResource default_addon))
         signup [''username'' \<mapsto> Some ''ann''] quiet = deny_all signup [''username'' \<mapsto> Some ''ann''] quiet"
    using login_passes_through [OF n, THEN conjunct1, of builtin_processor "''User''"] c
    by (elim exE conjE) simp
  moreover have "login (createSessionProcessor
            (new_UserManagementAddon builtin_processor ''User''
               (Some ((no_overrides :: (string, unit \<times> (string Operation \<times> string ResourceAttributes) list,
                                         unit, unit, unit, string) UserManagementAddonOptions)
                        \<lparr>userLoginCallback := Val (recording deny_all)\<rparr>)))
            (createSessionResource default_addon))
         signup [''username'' \<mapsto> Some ''ann''] \<lparr>console = [], host = ((), [])\<rparr> =
       (Inr False, \<lparr>console = [], host = ((), [(signup, [''username'' \<mapsto> Some ''ann''])])\<rparr>)"
    using login_passes_through [OF n, where J' = builtin_processor and U' = "''User''"
        and s = no_overrides and f' = deny_all and srt' = "createSessionResource default_addon"
        and op' = signup and attrs' = "[''username'' \<mapsto> Some ''ann'']"
        and out = "[]" and h = "()" and calls = "[]", THEN conjunct2]
    by (simp add: deny_all_def)
  ultimately show ?thesis by (simp add: deny_all_def)
qed

subsection \<open>The default login callback\<close>

text \<open>
  Claim C4 as stated: with no overrides, \<open>login\<close> always returns true and the warning is
  emitted exactly once per installation.  The second half fails: after one installation
  with no options, two logins leave two warnings on a console that was empty.
\<close>

theorem default_login_warns_on_every_call:
  "fst (install builtin_processor default_addon fresh_app) = Inr ()
   \<and> processors (snd (install builtin_processor default_addon fresh_app)) ! 1 =
       SessionP (createSessionProcessor default_addon (createSessionResource default_addon))
   \<and> console (snd (login (createSessionProcessor default_addon (createSessionResource default_addon))
                      signup Map.empty
                      (snd (login (createSessionProcessor default_addon
                                     (createSessionResource default_addon))
                              signup Map.empty quiet)))) =
       [login_warning, login_warning]"
  by (simp add: install_result install_outcome default_addon_def merged_field supplied_def
        spread_prop_def createSessionProcessor_def default_userLoginCallback_def warn_def
        quiet_def fresh_app_def createUserProcessor_eq same_class_def)

text \<open>
  Claim C4, amended: for every configuration that does not override \<open>userLoginCallback\<close>,
  every invocation of the composed session processor's \<open>login\<close> returns true and
  appends the unsafe-default warning to the console once: once per invocation.
\<close>

theorem default_login_permits_and_warns:
  assumes "supplied userLoginCallback opts = Missing"
  shows "login (createSessionProcessor (new_UserManagementAddon J U opts) srt) op attrs w =
           (Inr True, warn login_warning w)"
  using assms
  by (simp add: createSessionProcessor_def merged_field spread_prop_def
        default_userLoginCallback_def)

theorem default_login_permits_and_warns_witness:
  "login (createSessionProcessor default_addon (createSessionResource default_addon))
     signup Map.empty quiet = (Inr True, \<lparr>console = [login_warning], host = ()\<rparr>)"
proof -
  have "supplied userLoginCallback (None :: example_options option) = Missing"
    by (simp add: supplied_def)
  from default_login_permits_and_warns [OF this, of builtin_processor "''User''"]
  show ?thesis
    by (simp add: default_addon_def warn_def quiet_def)
qed


subsection \<open>The merged options\<close>

text \<open>
  Claim C5 as stated: after construction no field with a built-in default is left unset.
  It fails for the options \<open>{ usernameRequestParameter: undefined }\<close>, which the
  optional field of the options type admits: the supplied key replaces the default
  \<open>username\<close>, and the merged field reads \<open>undefined\<close>.
\<close>

theorem spread_keeps_supplied_undefined:
  "supplied usernameRequestParameter (Some undefined_username_options) = Undef
   \<and> usernameRequestParameter (options (new_UserManagementAddon
        (builtin_processor :: (string, unit, unit) ProcessorClass) ''User''
        (Some undefined_username_options))) = Undef
   \<and> read_property (usernameRequestParameter (options (new_UserManagementAddon
        (builtin_processor :: (string, unit, unit) ProcessorClass) ''User''
        (Some undefined_username_options)))) = None"
  by (simp add: merged_field supplied_def spread_prop_def undefined_username_options_def
        no_overrides_def)

text \<open>
  Claim C5, amended: after construction, each of the eight option fields that have a
  built-in default holds the supplied value when its key was supplied (the whole value,
  whatever it is: nothing of the default is mixed in) and the default when its key was
  omitted; such a field is left unset only when the deployer supplied its key as
  \<open>undefined\<close>.  Without an options object every field counts as omitted.
\<close>

theorem spread_overlays_defaults:
  "overlaid U (supplied userResource opts)
     (userResource (options (new_UserManagementAddon J U opts)))
   \<and> overlaid J (supplied userProcessor opts)
     (userProcessor (options (new_UserManagementAddon J U opts)))
   \<and> overlaid default_userEncryptPasswordCallback (supplied userEncryptPasswordCallback opts)
     (userEncryptPasswordCallback (options (new_UserManagementAddon J U opts)))
   \<and> overlaid default_userLoginCallback (supplied userLoginCallback opts)
     (userLoginCallback (options (new_UserManagementAddon J U opts)))
   \<and> overlaid default_userRolesProvider (supplied userRolesProvider opts)
     (userRolesProvider (options (new_UserManagementAddon J U opts)))
   \<and> overlaid default_userPermissionsProvider (supplied userPermissionsProvider opts)
     (userPermissionsProvider (options (new_UserManagementAddon J U opts)))
   \<and> overlaid ''username'' (supplied usernameRequestParameter opts)
     (usernameRequestParameter (options (new_UserManagementAddon J U opts)))
   \<and> overlaid ''password'' (supplied passwordRequestParameter opts)
     (passwordRequestParameter (options (new_UserManagementAddon J U opts)))"
  by (simp add: merged_field overlaid_spread_prop)

theorem spread_overlays_defaults_witness:
  "usernameRequestParameter (options (new_UserManagementAddon
      (builtin_processor :: (string, unit, unit) ProcessorClass) ''User'' (Some email_options))) =
     Val ''email''
   \<and> passwordRequestParameter (options (new_UserManagementAddon
      (builtin_processor :: (string, unit, unit) ProcessorClass) ''User'' (Some email_options))) =
     Val ''password''"
proof -
  have u: "supplied usernameRequestParameter (Some email_options) = Val ''email''"
    by (simp add: supplied_def email_options_def no_overrides_def)
  have p: "supplied passwordRequestParameter (Some email_options) = Missing"
    by (simp add: supplied_def email_options_def no_overrides_def)
  from spread_overlays_defaults
         [of "''User''" "Some email_options" "builtin_processor :: (string, unit, unit) ProcessorClass"]
  show ?thesis
    unfolding overlaid_def u p by simp
qed

subsection \<open>The session schema\<close>

text \<open>
  Claim C6: for every configuration with \<open>usernameRequestParameter = "email"\<close> and
  \<open>passwordRequestParameter\<close> left at its default, the attribute schema of the
  synthesized session resource has the key \<open>email\<close> with the string type and has no key
  \<open>username\<close>.
\<close>

theorem session_schema_email:
  assumes "supplied usernameRequestParameter opts = Val ''email''"
      and "supplied passwordRequestParameter opts = Missing"
  shows "schema_attributes (createSessionResource (new_UserManagementAddon J U opts)) ''email''
           = Some StringType
       \<and> ''username'' \<notin>
           dom (schema_attributes (createSessionResource (new_UserManagementAddon J U opts)))"
  using assms
  by (simp add: createSessionResource_def Let_def merged_field spread_prop_def)

theorem session_schema_email_witness:
  "schema_attributes (createSessionResource (new_UserManagementAddon
      (builtin_processor :: (string, unit, unit) ProcessorClass) ''User'' (Some email_options)))
     ''email'' = Some StringType
   \<and> schema_attributes (createSessionResource (new_UserManagementAddon
      (builtin_processor :: (string, unit, unit) ProcessorClass) ''User'' (Some email_options)))
     ''username'' = None"
proof -
  have u: "supplied usernameRequestParameter (Some email_options) = Val ''email''"
    by (simp add: supplied_def email_options_def no_overrides_def)
  have p: "supplied passwordRequestParameter (Some email_options) = Missing"
    by (simp add: supplied_def email_options_def no_overrides_def)
  from session_schema_email [OF u p] show ?thesis
    by (simp add: domIff)
qed

subsection \<open>A custom class without the borrowed methods\<close>

text \<open>
  Claim C7: if the custom processor class lacks \<open>generateId\<close> or \<open>encryptPassword\<close>,
  composing the user processor still succeeds and so does \<open>install\<close>; invoking the
  missing method on the composed processor fails with a TypeError at that call, leaving
  the world as it was.
\<close>

theorem missing_method_fails_on_invocation:
  assumes "userProcessor s = Val c" and "class_id c \<noteq> class_id J"
  shows "\<exists>p. createUserProcessor J (new_UserManagementAddon J U (Some s)) = Inr p
           \<and> fst (install J (new_UserManagementAddon J U (Some s)) app) = Inr ()
           \<and> (proto_generateId c = None \<longrightarrow>
                (\<forall>this w. generateId p this w = (Inl TypeError, w)))
           \<and> (proto_encryptPassword c = None \<longrightarrow>
                (\<forall>this op w. encryptPassword p this op w = (Inl TypeError, w)))"
  using assms
  by (auto simp add: install_outcome createUserProcessor_eq merged_field spread_prop_def
        supplied_def same_class_def bind_call0_def bind_call1_def)

theorem missing_method_fails_on_invocation_witness:
  "fst (install builtin_processor
          (new_UserManagementAddon builtin_processor ''User'' (Some bare_options)) fresh_app) = Inr ()
   \<and> invoke_generateId
       (createUserProcessor builtin_processor
          (new_UserManagementAddon builtin_processor ''User'' (Some bare_options)))
       () quiet = (Inl TypeError, quiet)
   \<and> invoke_encryptPassword
       (createUserProcessor builtin_processor
          (new_UserManagementAddon builtin_processor ''User'' (Some bare_options)))
       () signup quiet = (Inl TypeError, quiet)"
proof -
  have 1: "userProcessor bare_options = Val bare_processor"
    by (simp add: bare_options_def no_overrides_def)
  have 2: "class_id (bare_processor :: (string, unit, unit) ProcessorClass) \<noteq>
           class_id (builtin_processor :: (string, unit, unit) ProcessorClass)"
    by (simp add: bare_processor_def builtin_processor_def)
  have 3: "proto_generateId (bare_processor :: (string, unit, unit) ProcessorClass) = None"
          "proto_encryptPassword (bare_processor :: (string, unit, unit) ProcessorClass) = None"
    by (simp_all add: bare_processor_def)
  from missing_method_fails_on_invocation [OF 1 2, of "''User''" fresh_app]
  show ?thesis
    by (auto simp add: 3 invoke_generateId_def invoke_encryptPassword_def)
qed

subsection \<open>What \<open>install\<close> registers\<close>

text \<open>
  Claim C8 as stated: for every configuration, \<open>install\<close> registers two entity types and
  two processor types.  It fails for the options \<open>{ userProcessor: undefined }\<close>, which
  the optional field of the options type admits: the spread keeps the supplied
  \<open>undefined\<close>, composing the user processor throws on \<open>userProcessor.prototype\<close>, and
  \<open>install\<close> fails having registered the two types and no processor.
\<close>

theorem install_undefined_userProcessor_fails:
  "fst (install builtin_processor
          (new_UserManagementAddon builtin_processor ''User'' (Some undefined_processor_options))
          fresh_app) = Inl TypeError
   \<and> processors (snd (install builtin_processor
          (new_UserManagementAddon builtin_processor ''User'' (Some undefined_processor_options))
          fresh_app)) = []
   \<and> length (types (snd (install builtin_processor
          (new_UserManagementAddon builtin_processor ''User'' (Some undefined_processor_options))
          fresh_app))) = 2"
  by (simp add: install_result createUserProcessor_fails merged_field supplied_def spread_prop_def
        undefined_processor_options_def no_overrides_def fresh_app_def)

text \<open>
  Claim C8, amended: for every configuration whose \<open>userProcessor\<close> is not explicitly
  \<open>undefined\<close>, one \<open>install\<close> succeeds and appends exactly two entries to \<open>app.types\<close>
  (the configured user resource, then the synthesized session resource), appends exactly
  two entries to \<open>app.processors\<close> (the composed user processor, then the composed
  session processor), and sets the services \<open>roles\<close> and \<open>permissions\<close> to the configured
  providers, changing nothing else of the application.
\<close>

theorem install_registers:
  assumes "supplied userProcessor opts \<noteq> Undef"
  shows "\<exists>up. createUserProcessor J (new_UserManagementAddon J U opts) = Inr up \<and>
     install J (new_UserManagementAddon J U opts) app =
       (Inr (),
        app\<lparr>services := (services app)
                (''roles'' \<mapsto> read_property (userRolesProvider (options (new_UserManagementAddon J U opts))),
                 ''permissions'' \<mapsto>
                    read_property (userPermissionsProvider (options (new_UserManagementAddon J U opts)))),
             types := types app @
                [Configured (read_property (userResource (options (new_UserManagementAddon J U opts)))),
                 Synthesized (createSessionResource (new_UserManagementAddon J U opts))],
             processors := processors app @
                [UserP up,
                 SessionP (createSessionProcessor (new_UserManagementAddon J U opts)
                             (createSessionResource (new_UserManagementAddon J U opts)))]\<rparr>)"
proof -
  from assms obtain c
    where "read_property (userProcessor (options (new_UserManagementAddon J U opts))) = Some c"
    by (cases "supplied userProcessor opts") (simp_all add: merged_field spread_prop_def)
  then obtain up where "createUserProcessor J (new_UserManagementAddon J U opts) = Inr up"
    using createUserProcessor_succeeds by blast
  then show ?thesis by (simp add: install_result)
qed

theorem install_registers_witness:
  "fst (install builtin_processor default_addon fresh_app) = Inr ()
   \<and> types (snd (install builtin_processor default_addon fresh_app)) =
       [Configured (Some ''User''), Synthesized (createSessionResource default_addon)]
   \<and> length (processors (snd (install builtin_processor default_addon fresh_app))) = 2
   \<and> services (snd (install builtin_processor default_addon fresh_app)) ''roles'' =
       Some (Some default_userRolesProvider)
   \<and> services (snd (install builtin_processor default_addon fresh_app)) ''permissions'' =
       Some (Some default_userPermissionsProvider)"
proof -
  have "supplied userProcessor (None :: example_options option) \<noteq> Undef"
    by (simp add: supplied_def)
  from install_registers [OF this, of builtin_processor "''User''" fresh_app]
  show ?thesis
    by (elim exE conjE)
       (simp add: default_addon_def fresh_app_def merged_field supplied_def spread_prop_def)
qed


subsection \<open>Colliding attribute names\<close>

text \<open>
  Claim C9: when the configured username and password parameters name the same key, or
  one of them is \<open>token\<close>, the session schema has fewer than three attributes and the
  attribute listed later wins the shared key: the password type when username and
  password collide or the password parameter is \<open>token\<close>, the string type when only the
  username parameter is \<open>token\<close>.  Nothing is rejected: the schema is built for every
  configuration, and whether \<open>install\<close> succeeds does not depend on the two names.
\<close>

theorem colliding_attribute_names:
  "(let u = property_key (read_property (usernameRequestParameter (options this)));
        p = property_key (read_property (passwordRequestParameter (options this)));
        attrs = schema_attributes (createSessionResource this)
    in (u = p \<or> u = ''token'' \<or> p = ''token'' \<longrightarrow> card (dom attrs) < 3)
     \<and> (u = p \<longrightarrow> attrs u = Some PasswordType)
     \<and> (p = ''token'' \<longrightarrow> attrs ''token'' = Some PasswordType)
     \<and> (u = ''token'' \<and> p \<noteq> ''token'' \<longrightarrow> attrs ''token'' = Some StringType))
   \<and> fst (install J (this\<lparr>options := (options this)
              \<lparr>usernameRequestParameter := x, passwordRequestParameter := y\<rparr>\<rparr>) app) =
       fst (install J this app)"
proof -
  have "u = p \<or> u = ''token'' \<or> p = ''token'' \<Longrightarrow>
        card (dom [''token'' \<mapsto> StringType, u \<mapsto> StringType, p \<mapsto> PasswordType]) < 3" for u p
    using card_dom_collision [of "''token''" u p] by auto
  then show ?thesis
    by (simp add: createSessionResource_def Let_def install_outcome)
qed

theorem colliding_attribute_names_witness:
  "card (dom (schema_attributes (createSessionResource (new_UserManagementAddon
      (builtin_processor :: (string, unit, unit) ProcessorClass) ''User''
      (Some colliding_options))))) < 3
   \<and> schema_attributes (createSessionResource (new_UserManagementAddon
      (builtin_processor :: (string, unit, unit) ProcessorClass) ''User''
      (Some colliding_options))) ''secret'' = Some PasswordType"
proof -
  have u: "property_key (read_property (usernameRequestParameter (options (new_UserManagementAddon
      (builtin_processor :: (string, unit, unit) ProcessorClass) ''User''
      (Some colliding_options))))) = ''secret''"
    by (simp add: merged_field supplied_def spread_prop_def colliding_options_def no_overrides_def)
  have p: "property_key (read_property (passwordRequestParameter (options (new_UserManagementAddon
      (builtin_processor :: (string, unit, unit) ProcessorClass) ''User''
      (Some colliding_options))))) = ''secret''"
    by (simp add: merged_field supplied_def spread_prop_def colliding_options_def no_overrides_def)
  from colliding_attribute_names [of "new_UserManagementAddon
      (builtin_processor :: (string, unit, unit) ProcessorClass) ''User'' (Some colliding_options)",
      THEN conjunct1]
  show ?thesis
    unfolding Let_def u p by simp
qed

subsection \<open>An omitted \<open>userResource\<close>\<close>

text \<open>
  Claim C10 as stated: if the configuration omits \<open>userResource\<close>, construction and
  \<open>install\<close> succeed.  The options
  \<open>{ userProcessor: undefined, usernameRequestParameter: "email" }\<close> omit
  \<open>userResource\<close>, and \<open>install\<close> fails with a TypeError: the built-in \<open>User\<close> is
  registered, but composing the user processor throws.
\<close>

theorem omitted_userResource_install_can_fail:
  "supplied userResource (Some email_undefined_processor_options) = Missing
   \<and> fst (install builtin_processor
          (new_UserManagementAddon builtin_processor ''User''
             (Some email_undefined_processor_options))
          fresh_app) = Inl TypeError
   \<and> types (snd (install builtin_processor
          (new_UserManagementAddon builtin_processor ''User''
             (Some email_undefined_processor_options))
          fresh_app)) =
       [Configured (Some ''User''),
        Synthesized (createSessionResource
          (new_UserManagementAddon builtin_processor ''User''
             (Some email_undefined_processor_options)))]"
  by (simp add: install_result createUserProcessor_fails merged_field supplied_def spread_prop_def
        email_undefined_processor_options_def no_overrides_def fresh_app_def)

text \<open>
  Claim C10, amended: if the configuration omits \<open>userResource\<close>, the merged options
  hold the built-in \<open>User\<close> and \<open>install\<close> registers the built-in \<open>User\<close> followed by the
  session resource, rather than failing on the missing option; \<open>install\<close> succeeds
  whenever \<open>userProcessor\<close> is not explicitly \<open>undefined\<close>.
\<close>

theorem omitted_userResource_defaults_to_User:
  assumes "supplied userResource opts = Missing"
  shows "userResource (options (new_UserManagementAddon J U opts)) = Val U
     \<and> types (snd (install J (new_UserManagementAddon J U opts) app)) =
         types app @ [Configured (Some U),
                      Synthesized (createSessionResource (new_UserManagementAddon J U opts))]
     \<and> (supplied userProcessor opts \<noteq> Undef \<longrightarrow>
          fst (install J (new_UserManagementAddon J U opts) app) = Inr ())"
proof -
  have m: "userResource (options (new_UserManagementAddon J U opts)) = Val U"
    using assms by (simp add: merged_field spread_prop_def)
  have t: "types (snd (install J (new_UserManagementAddon J U opts) app)) =
         types app @ [Configured (Some U),
                      Synthesized (createSessionResource (new_UserManagementAddon J U opts))]"
    using m by (simp add: install_result split: sum.splits)
  have "fst (install J (new_UserManagementAddon J U opts) app) = Inr ()"
    if "supplied userProcessor opts \<noteq> Undef"
    using that by (cases "supplied userProcessor opts")
      (simp_all add: install_outcome merged_field spread_prop_def)
  with m t show ?thesis by simp
qed

theorem omitted_userResource_defaults_to_User_witness:
  "userResource (options (new_UserManagementAddon
      (builtin_processor :: (string, unit, unit) ProcessorClass) ''User''
      (Some email_options))) = Val ''User''
   \<and> types (snd (install builtin_processor
        (new_UserManagementAddon builtin_processor ''User'' (Some email_options)) fresh_app)) =
       [Configured (Some ''User''),
        Synthesized (createSessionResource
          (new_UserManagementAddon builtin_processor ''User'' (Some email_options)))]
   \<and> fst (install builtin_processor
        (new_UserManagementAddon builtin_processor ''User'' (Some email_options)) fresh_app) =
       Inr ()"
proof -
  have r: "supplied userResource (Some email_options) = Missing"
    by (simp add: supplied_def email_options_def no_overrides_def)
  have q: "supplied userProcessor (Some email_options) \<noteq> Undef"
    by (simp add: supplied_def email_options_def no_overrides_def)
  from omitted_userResource_defaults_to_User [OF r, of builtin_processor "''User''" fresh_app] q
  show ?thesis
    by (simp add: fresh_app_def)
qed


end
